theory Spec2Isabelle
  imports Complex_Main
begin

section \<open>JavaScript conventions used by the handlers\<close>

text \<open>
  An optional string property is a \<open>string option\<close>: \<open>None\<close> is \<open>undefined\<close>.
  In a condition JavaScript treats \<open>undefined\<close> and the empty string as false and every
  other string as true. An array or a function is true whenever it is defined.
\<close>

definition truthyStr :: "string option \<Rightarrow> bool" where
  "truthyStr s = (case s of None \<Rightarrow> False | Some t \<Rightarrow> t \<noteq> [])"

definition truthyBool :: "bool option \<Rightarrow> bool" where
  "truthyBool b = (case b of None \<Rightarrow> False | Some t \<Rightarrow> t)"

section \<open>The spawn handler of \<open>src/main/ipc/handlers/process.ts\<close>\<close>

subsection \<open>Data\<close>

text \<open>The \<open>config\<close> object the \<open>process:spawn\<close> handler receives.\<close>

record SpawnConfig =
  sessionId :: string
  toolType :: string
  cwd :: string
  command :: string
  args :: "string list"
  prompt :: "string option"
  shell :: "string option"
  images :: "string list option"
  agentSessionId :: "string option"
  readOnlyMode :: "bool option"
  modelId :: "string option"

text \<open>
  The agent definition returned by \<open>agentDetector.getAgent\<close>, with the properties the
  handler reads. Every property the handler tests before use is optional. Configuration
  values have type \<open>any\<close> in the source; they are the type parameter \<open>'v\<close>.
  \<open>defaultValue\<close> is the property \<open>default\<close> of an option.
\<close>

record 'v AgentConfigOption =
  key :: string
  defaultValue :: 'v
  argBuilder :: "('v \<Rightarrow> string list) option"

record 'v AgentConfig =
  requiresPty :: "bool option"
  batchModePrefix :: "string list option"
  jsonOutputArgs :: "string list option"
  resumeArgs :: "(string \<Rightarrow> string list) option"
  readOnlyArgs :: "string list option"
  modelArgs :: "(string \<Rightarrow> string list) option"
  configOptions :: "'v AgentConfigOption list option"

text \<open>
  The two stores. \<open>AgentConfigsData.configs\<close> holds, for an agent id, the object with
  that agent's stored values by option key. Both maps give the members the objects have of
  their own (what was stored). Of the settings store the handlers read \<open>defaultShell\<close>
  only.
\<close>

type_synonym 'v AgentConfigsData = "string \<rightharpoonup> (string \<rightharpoonup> 'v)"

text \<open>
  The handler reads both objects with \<open>object[key]\<close>. Such a read gives the object's own
  member when it has one and otherwise the member the object inherits under that name
  (every plain object inherits \<open>toString\<close>, \<open>constructor\<close> and others), and
  \<open>undefined\<close> only when there is neither. What is inherited belongs to the language and
  not to the repository; it is a parameter:
  \<^item> \<open>inherited k\<close> is the member named \<open>k\<close> that a plain object inherits, \<open>None\<close> when
    there is none. The inherited members are functions and objects, all of them true in a
    condition.
  \<^item> \<open>memberOf f k\<close> is the read \<open>f[k]\<close> on such an inherited value \<open>f\<close>.
\<close>

record 'v JsObjects =
  inherited :: "string \<rightharpoonup> 'v"
  memberOf :: "'v \<Rightarrow> string \<rightharpoonup> 'v"

text \<open>
  \<open>agentConfigsStore.get('configs', {})[config.toolType] || {}\<close>: the agent's own stored
  object, else the value the \<open>configs\<close> object inherits under the name of the tool type,
  else the empty object.
\<close>

datatype 'v AgentConfigObject =
    StoredObject "string \<rightharpoonup> 'v"
  | InheritedValue 'v

definition readAgentConfig :: "'v JsObjects \<Rightarrow> 'v AgentConfigsData \<Rightarrow> string \<Rightarrow> 'v AgentConfigObject" where
  "readAgentConfig objs configs tool =
     (case configs tool of
        Some c \<Rightarrow> StoredObject c
      | None \<Rightarrow>
         (case inherited objs tool of
            Some f \<Rightarrow> InheritedValue f
          | None \<Rightarrow> StoredObject Map.empty))"

text \<open>\<open>agentConfig[option.key]\<close>; \<open>None\<close> is \<open>undefined\<close>.\<close>

definition readOptionKey :: "'v JsObjects \<Rightarrow> 'v AgentConfigObject \<Rightarrow> string \<rightharpoonup> 'v" where
  "readOptionKey objs agentConfig k =
     (case agentConfig of
        StoredObject own \<Rightarrow> (case own k of Some v \<Rightarrow> Some v | None \<Rightarrow> inherited objs k)
      | InheritedValue f \<Rightarrow> memberOf objs f k)"

record MaestroSettings =
  defaultShell :: "string option"

subsection \<open>Building the argument list\<close>

text \<open>
  The loop over \<open>agent.configOptions\<close>. \<open>agentConfig\<close> is given by its reads:
  \<open>agentConfig k\<close> is the value of \<open>agentConfig[k]\<close>, \<open>None\<close> when that is
  \<open>undefined\<close>. An option without \<open>argBuilder\<close> is skipped; otherwise the value read is
  used when it is not \<open>undefined\<close>, the option's default otherwise, and the arguments
  built from it are appended.
\<close>

fun configOptionsLoop ::
  "(string \<rightharpoonup> 'v) \<Rightarrow> 'v AgentConfigOption list \<Rightarrow> string list \<Rightarrow> string list" where
  "configOptionsLoop agentConfig [] finalArgs = finalArgs"
| "configOptionsLoop agentConfig (opt # rest) finalArgs =
     configOptionsLoop agentConfig rest
       (case argBuilder opt of
          None \<Rightarrow> finalArgs
        | Some build \<Rightarrow>
            (let val = (case agentConfig (key opt) of Some v \<Rightarrow> v | None \<Rightarrow> defaultValue opt);
                 additionalArgs = build val
             in finalArgs @ additionalArgs))"

text \<open>
  \<open>finalArgs\<close> as the handler computes it, statement by statement. \<open>agent\<close> is the
  result of \<open>agentDetector.getAgent (config.toolType)\<close>, \<open>None\<close> when it is null.
\<close>

definition spawnFinalArgs ::
  "'v JsObjects \<Rightarrow> 'v AgentConfig option \<Rightarrow> 'v AgentConfigsData \<Rightarrow> SpawnConfig
     \<Rightarrow> string list" where
  "spawnFinalArgs objs agent configs config =
    (let finalArgs = args config;
         finalArgs =
           (case agent of
              None \<Rightarrow> finalArgs
            | Some a \<Rightarrow>
               (let finalArgs =
                      (case batchModePrefix a of
                         Some pre \<Rightarrow> if truthyStr (prompt config) then pre @ finalArgs else finalArgs
                       | None \<Rightarrow> finalArgs);
                    finalArgs =
                      (case jsonOutputArgs a of
                         Some js \<Rightarrow>
                           if \<not> list_ex (\<lambda>arg. arg \<in> set js) finalArgs
                           then finalArgs @ js else finalArgs
                       | None \<Rightarrow> finalArgs);
                    finalArgs =
                      (case resumeArgs a of
                         Some resume \<Rightarrow>
                           if truthyStr (agentSessionId config)
                           then finalArgs @ resume (the (agentSessionId config)) else finalArgs
                       | None \<Rightarrow> finalArgs);
                    finalArgs =
                      (case readOnlyArgs a of
                         Some ro \<Rightarrow> if truthyBool (readOnlyMode config) then finalArgs @ ro else finalArgs
                       | None \<Rightarrow> finalArgs);
                    finalArgs =
                      (case modelArgs a of
                         Some model \<Rightarrow>
                           if truthyStr (modelId config)
                           then finalArgs @ model (the (modelId config)) else finalArgs
                       | None \<Rightarrow> finalArgs)
                in finalArgs));
         finalArgs =
           (case agent of
              None \<Rightarrow> finalArgs
            | Some a \<Rightarrow>
               (case configOptions a of
                  None \<Rightarrow> finalArgs
                | Some opts \<Rightarrow>
                   (let agentConfig = readAgentConfig objs configs (toolType config)
                    in configOptionsLoop (readOptionKey objs agentConfig) opts finalArgs)))
     in finalArgs)"

text \<open>
  The shell: \<open>config.shell || (config.toolType === 'terminal' ?
  settingsStore.get('defaultShell', 'zsh') : undefined)\<close>.
\<close>

definition settingsGetDefaultShell :: "MaestroSettings \<Rightarrow> string" where
  "settingsGetDefaultShell settings = (case defaultShell settings of None \<Rightarrow> ''zsh'' | Some s \<Rightarrow> s)"

definition shellToUse :: "MaestroSettings \<Rightarrow> SpawnConfig \<Rightarrow> string option" where
  "shellToUse settings config =
     (if truthyStr (shell config) then shell config
      else if toolType config = ''terminal'' then Some (settingsGetDefaultShell settings)
      else None)"

text \<open>
  What the handler passes on to \<open>processManager.spawn\<close>: the request with \<open>args\<close> and
  \<open>shell\<close> replaced, and the agent's \<open>requiresPty\<close>.
\<close>

definition spawnOptions ::
  "'v JsObjects \<Rightarrow> 'v AgentConfig option \<Rightarrow> 'v AgentConfigsData \<Rightarrow> MaestroSettings
     \<Rightarrow> SpawnConfig \<Rightarrow> SpawnConfig \<times> bool option" where
  "spawnOptions objs agent configs settings config =
     (config\<lparr>args := spawnFinalArgs objs agent configs config,
             shell := shellToUse settings config\<rparr>,
      case agent of None \<Rightarrow> None | Some a \<Rightarrow> requiresPty a)"

subsection \<open>The fragments of the argument list, one by one\<close>

text \<open>
  The pieces the specification numbers (1) to (6), each with the condition under which the
  handler adds it. They are compared with \<open>spawnFinalArgs\<close> below.
\<close>

definition fragBatchPrefix :: "'v AgentConfig \<Rightarrow> SpawnConfig \<Rightarrow> string list" where
  "fragBatchPrefix a config =
     (case batchModePrefix a of
        Some pre \<Rightarrow> if truthyStr (prompt config) then pre else []
      | None \<Rightarrow> [])"

definition fragJsonOutput :: "'v AgentConfig \<Rightarrow> SpawnConfig \<Rightarrow> string list" where
  "fragJsonOutput a config =
     (case jsonOutputArgs a of
        Some js \<Rightarrow>
          if list_ex (\<lambda>arg. arg \<in> set js) (fragBatchPrefix a config @ args config) then [] else js
      | None \<Rightarrow> [])"

definition fragResume :: "'v AgentConfig \<Rightarrow> SpawnConfig \<Rightarrow> string list" where
  "fragResume a config =
     (case (agentSessionId config, resumeArgs a) of
        (Some token, Some resume) \<Rightarrow> if token = [] then [] else resume token
      | _ \<Rightarrow> [])"

definition fragReadOnly :: "'v AgentConfig \<Rightarrow> SpawnConfig \<Rightarrow> string list" where
  "fragReadOnly a config =
     (case (readOnlyMode config, readOnlyArgs a) of
        (Some True, Some ro) \<Rightarrow> ro
      | _ \<Rightarrow> [])"

definition fragModel :: "'v AgentConfig \<Rightarrow> SpawnConfig \<Rightarrow> string list" where
  "fragModel a config =
     (case (modelId config, modelArgs a) of
        (Some m, Some model) \<Rightarrow> if m = [] then [] else model m
      | _ \<Rightarrow> [])"

definition agentConfigRead ::
  "'v JsObjects \<Rightarrow> 'v AgentConfigsData \<Rightarrow> SpawnConfig \<Rightarrow> (string \<rightharpoonup> 'v)" where
  "agentConfigRead objs configs config =
     readOptionKey objs (readAgentConfig objs configs (toolType config))"

definition optionFragment :: "(string \<rightharpoonup> 'v) \<Rightarrow> 'v AgentConfigOption \<Rightarrow> string list" where
  "optionFragment reads opt =
     (case argBuilder opt of
        None \<Rightarrow> []
      | Some build \<Rightarrow> build (case reads (key opt) of Some v \<Rightarrow> v | None \<Rightarrow> defaultValue opt))"

definition fragUserConfig ::
  "'v JsObjects \<Rightarrow> 'v AgentConfig \<Rightarrow> 'v AgentConfigsData \<Rightarrow> SpawnConfig \<Rightarrow> string list" where
  "fragUserConfig objs a configs config =
     (case configOptions a of
        None \<Rightarrow> []
      | Some opts \<Rightarrow> concat (map (optionFragment (agentConfigRead objs configs config)) opts))"

text \<open>
  The value resolution as the specification words it in step (6): an explicit override
  first, then the stored value, then the default. A spawn request has no field for such an
  override, so for the handler the first argument is always \<open>None\<close>.
\<close>

definition specResolveOptionValue :: "'v option \<Rightarrow> 'v option \<Rightarrow> 'v \<Rightarrow> 'v" where
  "specResolveOptionValue override stored dflt =
     (case override of
        Some v \<Rightarrow> v
      | None \<Rightarrow> (case stored of Some v \<Rightarrow> v | None \<Rightarrow> dflt))"

subsection \<open>Example values\<close>

text \<open>
  Configuration values for the examples: a stored string, or one of the functions a plain
  object inherits, named by its property name. \<open>valueText\<close> is the text of a value when
  an argument builder puts it into an argument (\<open>String(value)\<close>).
\<close>

datatype ExampleValue = StringValue string | FunctionValue string

definition valueText :: "ExampleValue \<Rightarrow> string" where
  "valueText v =
     (case v of
        StringValue s \<Rightarrow> s
      | FunctionValue f \<Rightarrow> ''function '' @ f @ ''() { [native code] }'')"

text \<open>
  The function members every plain object inherits from \<open>Object.prototype\<close> in
  ECMAScript, and the example objects model built on them. Of the members of these
  functions themselves only \<open>name\<close> is given.
\<close>

definition objectPrototypeNames :: "string list" where
  "objectPrototypeNames =
     [''constructor'', ''hasOwnProperty'', ''isPrototypeOf'', ''propertyIsEnumerable'',
      ''toLocaleString'', ''toString'', ''valueOf'']"

definition exampleObjects :: "ExampleValue JsObjects" where
  "exampleObjects =
     \<lparr>inherited = (\<lambda>k. if k \<in> set objectPrototypeNames then Some (FunctionValue k) else None),
      memberOf = (\<lambda>f k. case f of
                           FunctionValue n \<Rightarrow> if k = ''name'' then Some (StringValue n) else None
                         | StringValue s \<Rightarrow> None)\<rparr>"

section \<open>The protocol adapter (ACP session updates to parsed events)\<close>

subsection \<open>Protocol types of \<open>src/main/acp/types.ts\<close>\<close>

text \<open>
  Field names carry the name of their interface as a prefix, since several interfaces
  share names. String-literal unions (\<open>Role\<close>, \<open>ToolKind\<close>, \<open>ToolCallStatus\<close>, plan
  priority and status) are strings: the values arrive as JSON and nothing checks them.
\<close>

text \<open>A JavaScript value as \<open>JSON.parse\<close> builds it, and \<open>undefined\<close>.\<close>

datatype jsval =
    JUndefined
  | JNull
  | JBool bool
  | JNum real
  | JStr string
  | JArr "jsval list"
  | JObj "(string \<times> jsval) list"

record Annotations =
  ann_audience :: "string list option"
  ann_lastModified :: "string option"
  ann_priority :: "real option"

record TextContent =
  text_text :: string
  text_annotations :: "Annotations option"

record ImageContent =
  image_data :: string
  image_mimeType :: string
  image_uri :: "string option"
  image_annotations :: "Annotations option"

record ResourceLink =
  link_uri :: string
  link_name :: string
  link_mimeType :: "string option"
  link_description :: "string option"
  link_title :: "string option"
  link_size :: "real option"
  link_annotations :: "Annotations option"

record TextResourceContents =
  tres_uri :: string
  tres_text :: string
  tres_mimeType :: "string option"

record BlobResourceContents =
  bres_uri :: string
  bres_blob :: string
  bres_mimeType :: "string option"

datatype ResourceContents =
    TextResource TextResourceContents
  | BlobResource BlobResourceContents

record EmbeddedResource =
  res_resource :: ResourceContents
  res_annotations :: "Annotations option"

text \<open>
  \<open>ContentBlock\<close> is a union of objects with one property each. \<open>OtherBlock\<close> stands for
  an object with none of the four properties, which reaches the last \<open>return\<close> of
  \<open>extractText\<close>.
\<close>

datatype ContentBlock =
    TextBlock TextContent
  | ImageBlock ImageContent
  | ResourceLinkBlock ResourceLink
  | ResourceBlock EmbeddedResource
  | OtherBlock

record ContentChunk =
  chunk_content :: ContentBlock

record Diff =
  diff_path :: string
  diff_oldText :: "string option"
  diff_newText :: string

datatype ToolCallContent =
    ContentItem ContentBlock
  | DiffItem Diff
  | TerminalItem string

record ToolCallLocation =
  loc_path :: string
  loc_line :: "real option"

record ToolCall =
  tc_toolCallId :: string
  tc_title :: string
  tc_kind :: "string option"
  tc_status :: "string option"
  tc_rawInput :: "jsval option"
  tc_rawOutput :: "jsval option"
  tc_content :: "ToolCallContent list option"
  tc_locations :: "ToolCallLocation list option"

record ToolCallUpdate =
  tcu_toolCallId :: string
  tcu_title :: "string option"
  tcu_kind :: "string option"
  tcu_status :: "string option"
  tcu_rawInput :: "jsval option"
  tcu_rawOutput :: "jsval option"
  tcu_content :: "ToolCallContent list option"
  tcu_locations :: "ToolCallLocation list option"

record PlanEntry =
  entry_content :: string
  entry_priority :: string
  entry_status :: string

record Plan =
  plan_entries :: "PlanEntry list"

record AvailableCommand =
  cmd_name :: string
  cmd_description :: string
  cmd_inputHint :: "string option"

record AvailableCommandsUpdate =
  availableCommands :: "AvailableCommand list"

record CurrentModeUpdate =
  currentModeId :: string

text \<open>
  \<open>SessionUpdate\<close>, again a union of one-property objects. \<open>OtherUpdate\<close> stands for a
  notification with none of the eight properties (a kind the adapter does not know).
\<close>

datatype SessionUpdate =
    User_message_chunk ContentChunk
  | Agent_message_chunk ContentChunk
  | Agent_thought_chunk ContentChunk
  | Tool_call ToolCall
  | Tool_call_update ToolCallUpdate
  | Plan_update Plan
  | Available_commands_update AvailableCommandsUpdate
  | Current_mode_update CurrentModeUpdate
  | OtherUpdate

subsection \<open>Parsed events\<close>

text \<open>
  The event objects the adapter builds, one constructor for each shape of object literal
  in the adapter; \<open>eventType\<close> is the \<open>type\<close> property. The arguments are, in order:
  \<^item> \<open>TextEvent\<close> and \<open>ThinkingEvent\<close>: text, isPartial, sessionId;
  \<^item> \<open>ToolUseEvent\<close>: toolName, toolInput, toolOutput, toolId, status, sessionId;
  \<^item> \<open>PlanEvent\<close>: entries (content, status, priority), sessionId;
  \<^item> \<open>InitEvent\<close>: slashCommands, sessionId;
  \<^item> \<open>SessionIdEvent\<close>: sessionId;
  \<^item> \<open>ResultEvent\<close>: text, sessionId, stopReason;
  \<^item> \<open>ErrorEvent\<close>: error type, message, recoverable, sessionId.
\<close>

datatype ParsedEvent =
    TextEvent string bool string
  | ThinkingEvent string bool string
  | ToolUseEvent string "jsval option" "jsval option" string string string
  | PlanEvent "PlanEntry list" string
  | InitEvent "string list" string
  | SessionIdEvent string
  | ResultEvent string string string
  | ErrorEvent string string bool string

fun eventType :: "ParsedEvent \<Rightarrow> string" where
  "eventType (TextEvent t p s) = ''text''"
| "eventType (ThinkingEvent t p s) = ''thinking''"
| "eventType (ToolUseEvent n i out tid st s) = ''tool_use''"
| "eventType (PlanEvent es s) = ''plan''"
| "eventType (InitEvent cs s) = ''init''"
| "eventType (SessionIdEvent s) = ''session_id''"
| "eventType (ResultEvent t s r) = ''result''"
| "eventType (ErrorEvent ty m r s) = ''error''"

subsection \<open>The adapter functions\<close>

fun extractText :: "ContentBlock \<Rightarrow> string" where
  "extractText (TextBlock t) = text_text t"
| "extractText (ImageBlock i) = ''[image]''"
| "extractText (ResourceLinkBlock l) = ''[resource: '' @ link_name l @ '']''"
| "extractText (ResourceBlock r) =
     (case res_resource r of
        TextResource res \<Rightarrow> tres_text res
      | BlobResource res \<Rightarrow> ''[binary resource]'')"
| "extractText OtherBlock = []"

definition mapToolStatus :: "string option \<Rightarrow> string" where
  "mapToolStatus status =
     (if status = Some ''pending'' then ''pending''
      else if status = Some ''in_progress'' then ''running''
      else if status = Some ''completed'' then ''completed''
      else if status = Some ''failed'' then ''error''
      else ''pending'')"

fun acpUpdateToParseEvent :: "string \<Rightarrow> SessionUpdate \<Rightarrow> ParsedEvent option" where
  "acpUpdateToParseEvent sid (Agent_message_chunk c) =
     Some (TextEvent (extractText (chunk_content c)) True sid)"
| "acpUpdateToParseEvent sid (Agent_thought_chunk c) =
     Some (ThinkingEvent (extractText (chunk_content c)) True sid)"
| "acpUpdateToParseEvent sid (User_message_chunk c) = None"
| "acpUpdateToParseEvent sid (Tool_call tc) =
     Some (ToolUseEvent (tc_title tc) (tc_rawInput tc) None (tc_toolCallId tc)
             (mapToolStatus (tc_status tc)) sid)"
| "acpUpdateToParseEvent sid (Tool_call_update tc) =
     Some (ToolUseEvent (if truthyStr (tcu_title tc) then the (tcu_title tc) else [])
             (tcu_rawInput tc) (tcu_rawOutput tc) (tcu_toolCallId tc)
             (mapToolStatus (tcu_status tc)) sid)"
| "acpUpdateToParseEvent sid (Plan_update p) =
     Some (PlanEvent
             (map (\<lambda>e. \<lparr>entry_content = entry_content e, entry_priority = entry_priority e,
                         entry_status = entry_status e\<rparr>) (plan_entries p))
             sid)"
| "acpUpdateToParseEvent sid (Available_commands_update u) =
     Some (InitEvent (map cmd_name (availableCommands u)) sid)"
| "acpUpdateToParseEvent sid (Current_mode_update m) = None"
| "acpUpdateToParseEvent sid OtherUpdate = None"

definition createSessionIdEvent :: "string \<Rightarrow> ParsedEvent" where
  "createSessionIdEvent sid = SessionIdEvent sid"

definition createResultEvent :: "string \<Rightarrow> string \<Rightarrow> string \<Rightarrow> ParsedEvent" where
  "createResultEvent sid txt stopReason = ResultEvent txt sid stopReason"

definition createErrorEvent :: "string \<Rightarrow> string \<Rightarrow> ParsedEvent" where
  "createErrorEvent sid message = ErrorEvent ''unknown'' message False sid"

section \<open>Reading stream-json output (\<open>conversationManager.ts\<close>)\<close>

text \<open>
  \<open>extractResultFromStreamJson\<close> splits the buffered output at newlines and looks for
  the first line that is a JSON object with \<open>type === 'result'\<close> and a true \<open>result\<close>.
  A \<open>char\<close> stands for one code unit of the JavaScript string.

  \<open>JSON.parse\<close> is the language's own function: it is the parameter \<open>parse\<close>, which
  returns \<open>None\<close> where \<open>JSON.parse\<close> throws a \<open>SyntaxError\<close>. The function
  returns \<open>msg.result\<close> as it is, whatever its type, and \<open>null\<close> (\<open>None\<close>) when no
  line qualifies. Nothing outside the inner \<open>try\<close> can throw, so the outer \<open>try\<close> has
  no branch of its own.
\<close>

datatype js_error = SyntaxError | TypeError

text \<open>\<open>output.split('\n')\<close>: always at least one piece, the pieces hold no newline.\<close>

fun splitLines :: "string \<Rightarrow> string list" where
  "splitLines [] = [[]]"
| "splitLines (c # cs) =
     (if c = CHR 0x0A then [] # splitLines cs
      else (case splitLines cs of l # ls \<Rightarrow> (c # l) # ls | [] \<Rightarrow> [[c]]))"

text \<open>
  \<open>!line.trim()\<close>: the line is empty once white space and line terminators are
  stripped, that is, it holds nothing else (tab, line feed, vertical tab, form feed,
  carriage return, space, no-break space among the code units below 256).
\<close>

definition isWhiteSpace :: "char \<Rightarrow> bool" where
  "isWhiteSpace c = (c \<in> set [CHR 0x09, CHR 0x0A, CHR 0x0B, CHR 0x0C, CHR 0x0D, CHR 0x20, CHR 0xA0])"

definition isBlank :: "string \<Rightarrow> bool" where
  "isBlank line = list_all isWhiteSpace line"

text \<open>
  Reading the property \<open>type\<close> or \<open>result\<close> of a parsed value: a \<open>TypeError\<close> on
  \<open>null\<close> and \<open>undefined\<close>, the member of an object, and \<open>undefined\<close> for a missing
  member and for a boolean, a number, a string or an array (none has these two properties).
  An object built by \<open>JSON.parse\<close> holds each member name once.
\<close>

definition getProp :: "jsval \<Rightarrow> string \<Rightarrow> js_error + jsval" where
  "getProp v k =
     (case v of
        JUndefined \<Rightarrow> Inl TypeError
      | JNull \<Rightarrow> Inl TypeError
      | JObj members \<Rightarrow> Inr (case map_of members k of None \<Rightarrow> JUndefined | Some x \<Rightarrow> x)
      | _ \<Rightarrow> Inr JUndefined)"

fun truthy :: "jsval \<Rightarrow> bool" where
  "truthy JUndefined = False"
| "truthy JNull = False"
| "truthy (JBool b) = b"
| "truthy (JNum n) = (n \<noteq> 0)"
| "truthy (JStr s) = (s \<noteq> [])"
| "truthy (JArr xs) = True"
| "truthy (JObj members) = True"

text \<open>
  The body of the inner \<open>try\<close> for one line: \<open>Inl\<close> is an exception thrown in it,
  \<open>Inr (Some r)\<close> is \<open>return msg.result\<close>, and \<open>Inr None\<close> falls through to the next
  line.
\<close>

definition tryLine :: "(string \<Rightarrow> jsval option) \<Rightarrow> string \<Rightarrow> js_error + jsval option" where
  "tryLine parse line =
     (case parse line of
        None \<Rightarrow> Inl SyntaxError
      | Some msg \<Rightarrow>
         (case getProp msg ''type'' of
            Inl e \<Rightarrow> Inl e
          | Inr t \<Rightarrow>
             if t = JStr ''result''
             then (case getProp msg ''result'' of
                     Inl e \<Rightarrow> Inl e
                   | Inr r \<Rightarrow> if truthy r then Inr (Some r) else Inr None)
             else Inr None))"

text \<open>
  What one line contributes when it is read as a standalone record, in the words of the
  specification: nothing when the line is blank, when it does not parse, or when the
  record is not an object of type \<open>result\<close> with a true \<open>result\<close>; that \<open>result\<close>
  otherwise.
\<close>

definition lineResult :: "(string \<Rightarrow> jsval option) \<Rightarrow> string \<Rightarrow> jsval option" where
  "lineResult parse line =
     (if isBlank line then None
      else (case parse line of
              Some (JObj members) \<Rightarrow>
                (if map_of members ''type'' = Some (JStr ''result'')
                 then (case map_of members ''result'' of
                         Some r \<Rightarrow> if truthy r then Some r else None
                       | None \<Rightarrow> None)
                 else None)
            | _ \<Rightarrow> None))"

text \<open>The \<open>for\<close> loop over the lines; the \<open>catch\<close> of the inner \<open>try\<close> goes on.\<close>

fun resultLoop :: "(string \<Rightarrow> jsval option) \<Rightarrow> string list \<Rightarrow> jsval option" where
  "resultLoop parse [] = None"
| "resultLoop parse (line # rest) =
     (if isBlank line then resultLoop parse rest
      else (case tryLine parse line of
              Inr (Some r) \<Rightarrow> Some r
            | Inr None \<Rightarrow> resultLoop parse rest
            | Inl e \<Rightarrow> resultLoop parse rest))"

definition extractResultFromStreamJson :: "(string \<Rightarrow> jsval option) \<Rightarrow> string \<Rightarrow> jsval option" where
  "extractResultFromStreamJson parse output = resultLoop parse (splitLines output)"

text \<open>
  The output a process writes when it prints the given lines one after the other with a
  newline between them (the inverse of \<open>split\<close>, used to state properties of streams).
\<close>

fun joinLines :: "string list \<Rightarrow> string" where
  "joinLines [] = []"
| "joinLines [l] = l"
| "joinLines (l # l' # ls) = l @ CHR 0x0A # joinLines (l' # ls)"

section \<open>The session registry and \<open>kill\<close>\<close>

text \<open>
  Modelled from the spec: the process manager (\<open>src/main/process-manager.ts\<close>, the class
  \<open>ProcessManager\<close> with its registry and its \<open>kill\<close>) is not among the sources; only
  the handler that forwards \<open>process:kill\<close> to it is. The registry follows sections 3,
  4.3 and 5 of the specification: a map from session id and role to a process handle
  with the states starting, running and exited.
\<close>

datatype Role = AI | Terminal

datatype LaunchMode = PtyBacked | PipeBacked

datatype HandleState = Starting | Running | Exited

record ProcessHandle =
  pid :: nat
  launchMode :: LaunchMode
  handleState :: HandleState
  exitCode :: "int option"

type_synonym SessionRegistry = "(string \<times> Role) \<rightharpoonup> ProcessHandle"

text \<open>
  Modelled from the spec: the roles of a session that have a handle in the registry whose
  process has not exited ("live" handles).
\<close>

definition liveRoles :: "SessionRegistry \<Rightarrow> string \<Rightarrow> Role list" where
  "liveRoles registry sid =
     filter (\<lambda>role. case registry (sid, role) of
                        None \<Rightarrow> False
                      | Some h \<Rightarrow> handleState h \<noteq> Exited)
       [AI, Terminal]"

text \<open>
  Modelled from the spec: \<open>kill\<close> "forcibly terminates both roles' handles for the
  session and removes them from the registry once their exit is observed"; it "only needs
  to signal termination and let the existing exit-detection path perform cleanup", and
  "killing an already-exited or unknown session returns a not found/false result, not an
  error". The result is the boolean returned, the handles that were sent a termination
  signal, and the registry afterwards.
\<close>

definition kill :: "SessionRegistry \<Rightarrow> string \<Rightarrow> bool \<times> (string \<times> Role) list \<times> SessionRegistry" where
  "kill registry sid =
     (let live = liveRoles registry sid
      in if live = [] then (False, [], registry)
         else (True, map (\<lambda>role. (sid, role)) live, registry))"

text \<open>
  Modelled from the spec: exit detection, "the single path that removes a handle from the
  registry", run when the process behind a handle exits.
\<close>

definition observeExit :: "SessionRegistry \<Rightarrow> string \<times> Role \<Rightarrow> SessionRegistry" where
  "observeExit registry k = registry(k := None)"

section \<open>Properties of the argument list\<close>

subsection \<open>The handler's statements, one fragment each\<close>

lemma configOptionsLoop_append:
  "configOptionsLoop stored opts acc = acc @ concat (map (optionFragment stored) opts)"
  by (induction opts arbitrary: acc) (simp_all add: optionFragment_def Let_def split: option.splits)

lemma spawnFinalArgs_no_agent: "spawnFinalArgs objs None configs config = args config"
  by (simp add: spawnFinalArgs_def)

lemma step_batch:
  "(case batchModePrefix a of
      Some pre \<Rightarrow> if truthyStr (prompt config) then pre @ xs else xs
    | None \<Rightarrow> xs) = fragBatchPrefix a config @ xs"
  by (simp add: fragBatchPrefix_def split: option.splits)

lemma step_json:
  "(case jsonOutputArgs a of
      Some js \<Rightarrow>
        if \<not> list_ex (\<lambda>arg. arg \<in> set js) (fragBatchPrefix a config @ args config)
        then (fragBatchPrefix a config @ args config) @ js
        else fragBatchPrefix a config @ args config
    | None \<Rightarrow> fragBatchPrefix a config @ args config)
   = (fragBatchPrefix a config @ args config) @ fragJsonOutput a config"
  by (simp add: fragJsonOutput_def split: option.splits)

lemma step_resume:
  "(case resumeArgs a of
      Some resume \<Rightarrow>
        if truthyStr (agentSessionId config)
        then xs @ resume (the (agentSessionId config)) else xs
    | None \<Rightarrow> xs) = xs @ fragResume a config"
  by (simp add: fragResume_def truthyStr_def split: option.splits)

lemma step_readOnly:
  "(case readOnlyArgs a of
      Some ro \<Rightarrow> if truthyBool (readOnlyMode config) then xs @ ro else xs
    | None \<Rightarrow> xs) = xs @ fragReadOnly a config"
  by (simp add: fragReadOnly_def truthyBool_def split: option.splits bool.splits)

lemma step_model:
  "(case modelArgs a of
      Some model \<Rightarrow>
        if truthyStr (modelId config)
        then xs @ model (the (modelId config)) else xs
    | None \<Rightarrow> xs) = xs @ fragModel a config"
  by (simp add: fragModel_def truthyStr_def split: option.splits)

lemma step_config:
  "(case configOptions a of
      None \<Rightarrow> xs
    | Some opts \<Rightarrow>
        configOptionsLoop
          (readOptionKey objs (readAgentConfig objs configs (toolType config))) opts xs)
   = xs @ fragUserConfig objs a configs config"
  by (simp add: fragUserConfig_def agentConfigRead_def configOptionsLoop_append
      split: option.splits)

lemma spawnFinalArgs_fragments:
  "spawnFinalArgs objs (Some a) configs config =
     fragBatchPrefix a config @ args config @ fragJsonOutput a config @ fragResume a config
       @ fragReadOnly a config @ fragModel a config @ fragUserConfig objs a configs config"
proof -
  have "spawnFinalArgs objs (Some a) configs config =
      (((((fragBatchPrefix a config @ args config) @ fragJsonOutput a config)
          @ fragResume a config) @ fragReadOnly a config) @ fragModel a config)
        @ fragUserConfig objs a configs config"
    unfolding spawnFinalArgs_def Let_def option.case
    unfolding step_batch
    unfolding step_json
    unfolding step_resume step_readOnly step_model step_config
    by (rule refl)
  then show ?thesis by simp
qed

lemma fragJsonOutput_disjoint:
  "set (fragJsonOutput a config) \<inter> set (fragBatchPrefix a config @ args config) = {}"
  by (auto simp: fragJsonOutput_def list_ex_iff split: option.splits)

lemma fragJsonOutput_cases:
  "jsonOutputArgs a = Some js \<Longrightarrow>
   fragJsonOutput a config =
     (if set js \<inter> set (fragBatchPrefix a config @ args config) = {} then js else [])"
  by (auto simp: fragJsonOutput_def list_ex_iff)

subsection \<open>Claims about the argument list\<close>

text \<open>
  C1. For every spawn request and agent descriptor the final argv is built in a fixed
  order: the batch-mode prefix (added when the descriptor declares one and the prompt is
  a non-empty string) comes before all base args, the JSON-output flags come next, and the
  resume, read-only, model and user-config fragments follow in that order. Without a
  descriptor the base args are passed on unchanged. The argv is a function of the
  descriptor, the stored configuration and the request: equal inputs give the same argv.
\<close>

theorem spawnFinalArgs_fixed_order:
  "spawnFinalArgs objs None configs config = args config
   \<and> spawnFinalArgs objs (Some a) configs config =
       fragBatchPrefix a config @ args config @ fragJsonOutput a config
         @ fragResume a config @ fragReadOnly a config @ fragModel a config
         @ fragUserConfig objs a configs config
   \<and> (agent' = Some a \<and> configs' = configs \<and> config' = config \<longrightarrow>
        spawnFinalArgs objs agent' configs' config' = spawnFinalArgs objs (Some a) configs config)"
  using spawnFinalArgs_no_agent [of objs configs config]
    spawnFinalArgs_fragments [of objs a configs config]
  by blast

theorem spawnFinalArgs_fixed_order_witness:
  "spawnFinalArgs exampleObjects
     (Some \<lparr>requiresPty = None, batchModePrefix = Some [''run''],
            jsonOutputArgs = Some [''--format'', ''json''],
            resumeArgs = Some (\<lambda>t. [''--session'', t]),
            readOnlyArgs = Some [''--agent'', ''plan''],
            modelArgs = Some (\<lambda>m. [''--model'', m]),
            configOptions = Some [\<lparr>key = ''contextWindow'',
                                    defaultValue = StringValue ''128000'',
                                    argBuilder = Some (\<lambda>v. [''--context'', valueText v])\<rparr>]\<rparr>)
     Map.empty
     \<lparr>sessionId = ''s1-ai'', toolType = ''opencode'', cwd = ''/tmp'', command = ''opencode'',
      args = [''--verbose''], prompt = Some ''hello'', shell = None, images = None,
      agentSessionId = Some ''ses_1'', readOnlyMode = Some True, modelId = Some ''gpt''\<rparr>
   = [''run'', ''--verbose'', ''--format'', ''json'', ''--session'', ''ses_1'',
      ''--agent'', ''plan'', ''--model'', ''gpt'', ''--context'', ''128000'']"
proof -
  let ?a = "\<lparr>requiresPty = None, batchModePrefix = Some [''run''],
            jsonOutputArgs = Some [''--format'', ''json''],
            resumeArgs = Some (\<lambda>t. [''--session'', t]),
            readOnlyArgs = Some [''--agent'', ''plan''],
            modelArgs = Some (\<lambda>m. [''--model'', m]),
            configOptions = Some [\<lparr>key = ''contextWindow'',
                                    defaultValue = StringValue ''128000'',
                                    argBuilder = Some (\<lambda>v. [''--context'', valueText v])\<rparr>]\<rparr>"
  let ?c = "\<lparr>sessionId = ''s1-ai'', toolType = ''opencode'', cwd = ''/tmp'', command = ''opencode'',
      args = [''--verbose''], prompt = Some ''hello'', shell = None, images = None,
      agentSessionId = Some ''ses_1'', readOnlyMode = Some True, modelId = Some ''gpt''\<rparr>"
  have "spawnFinalArgs exampleObjects (Some ?a) Map.empty ?c =
       fragBatchPrefix ?a ?c @ args ?c @ fragJsonOutput ?a ?c
         @ fragResume ?a ?c @ fragReadOnly ?a ?c @ fragModel ?a ?c
         @ fragUserConfig exampleObjects ?a Map.empty ?c"
    using spawnFinalArgs_fixed_order [of exampleObjects Map.empty ?c ?a "Some ?a" Map.empty ?c]
    by blast
  then show ?thesis
    by (simp add: fragBatchPrefix_def fragJsonOutput_def fragResume_def fragReadOnly_def
        fragModel_def fragUserConfig_def agentConfigRead_def readAgentConfig_def
        readOptionKey_def exampleObjects_def objectPrototypeNames_def valueText_def
        optionFragment_def truthyStr_def)
qed

text \<open>
  Where the handler does resolve the value as the specification says. For an option whose
  key is not the name of an inherited member, and an agent that has a stored object (or
  none, with a tool type that is no inherited name either), the value is the stored one
  when there is one and the descriptor's default otherwise; no override is ever given.
\<close>

lemma option_value_stored_or_default:
  assumes "inherited objs (key opt) = None"
    and "configs (toolType config) = Some own
         \<or> (configs (toolType config) = None \<and> inherited objs (toolType config) = None
             \<and> own = Map.empty)"
  shows "optionFragment (agentConfigRead objs configs config) opt =
           (case argBuilder opt of
              None \<Rightarrow> []
            | Some build \<Rightarrow>
                build (specResolveOptionValue None (own (key opt)) (defaultValue opt)))"
proof -
  have "agentConfigRead objs configs config (key opt) = own (key opt)"
    using assms
    by (auto simp: agentConfigRead_def readAgentConfig_def readOptionKey_def
        split: option.splits)
  then show ?thesis
    by (simp add: optionFragment_def specResolveOptionValue_def split: option.splits)
qed

text \<open>
  C3. The claim: the value used to build an option's fragment is the explicit override if
  one is given, else the stored per-agent value, else the descriptor's default. The handler
  tests \<open>agentConfig[option.key] !== undefined\<close>, and this read also finds the members a
  plain object inherits. For the option keyed \<open>toString\<close>, with no override and nothing
  stored, the claim gives the default \<open>plain\<close>; the handler builds the fragment from the
  inherited function instead.
\<close>

theorem config_option_inherited_key:
  "spawnFinalArgs exampleObjects
     (Some \<lparr>requiresPty = None, batchModePrefix = None, jsonOutputArgs = None,
            resumeArgs = None, readOnlyArgs = None, modelArgs = None,
            configOptions = Some [\<lparr>key = ''toString'', defaultValue = StringValue ''plain'',
                                    argBuilder = Some (\<lambda>v. [''--format'', valueText v])\<rparr>]\<rparr>)
     Map.empty
     \<lparr>sessionId = ''s1-ai'', toolType = ''opencode'', cwd = ''/tmp'', command = ''opencode'',
      args = [], prompt = None, shell = None, images = None,
      agentSessionId = None, readOnlyMode = None, modelId = None\<rparr>
   = [''--format'', ''function toString() { [native code] }'']
   \<and> [''--format'', valueText (specResolveOptionValue None None (StringValue ''plain''))]
     = [''--format'', ''plain'']"
  by (simp add: spawnFinalArgs_def readAgentConfig_def readOptionKey_def exampleObjects_def
      objectPrototypeNames_def valueText_def specResolveOptionValue_def)

text \<open>
  C5 (as stated) does not hold. With the JSON-output flag \<open>--json\<close> and base args that
  already hold it twice, the built argv holds the flag twice. And the check looks at the
  args built so far, which include the batch-mode prefix: a flag that stands in the prefix
  and not in the base args is not appended.
\<close>

theorem jsonOutputArgs_twice_counterexample:
  "spawnFinalArgs exampleObjects
     (Some \<lparr>requiresPty = None, batchModePrefix = None, jsonOutputArgs = Some [''--json''],
            resumeArgs = None, readOnlyArgs = None, modelArgs = None,
            configOptions = (None :: ExampleValue AgentConfigOption list option)\<rparr>)
     Map.empty
     \<lparr>sessionId = ''s1-ai'', toolType = ''agent'', cwd = ''/tmp'', command = ''agent'',
      args = [''--json'', ''--print'', ''--json''], prompt = None, shell = None, images = None,
      agentSessionId = None, readOnlyMode = None, modelId = None\<rparr>
   = [''--json'', ''--print'', ''--json'']
   \<and> count_list [''--json'', ''--print'', ''--json''] ''--json'' = 2
   \<and> spawnFinalArgs exampleObjects
     (Some \<lparr>requiresPty = None, batchModePrefix = Some [''run'', ''--json''],
            jsonOutputArgs = Some [''--json''],
            resumeArgs = None, readOnlyArgs = None, modelArgs = None,
            configOptions = (None :: ExampleValue AgentConfigOption list option)\<rparr>)
     Map.empty
     \<lparr>sessionId = ''s1-ai'', toolType = ''agent'', cwd = ''/tmp'', command = ''agent'',
      args = [''--print''], prompt = Some ''hello'', shell = None, images = None,
      agentSessionId = None, readOnlyMode = None, modelId = None\<rparr>
   = [''run'', ''--json'', ''--print'']"
  by (simp add: spawnFinalArgs_def truthyStr_def)

text \<open>
  C5 (amended). For every spawn request whose descriptor declares JSON-output flags, the
  flags are appended right after the base args exactly when none of them occurs anywhere
  in the args built so far, that is, in the batch-mode prefix followed by the base args
  (set membership, any position counts); when one of them occurs there, nothing is
  appended. Consequently the appended flags never repeat a token of the prefix or of the
  base args.
\<close>

theorem jsonOutputArgs_appended_unless_present:
  assumes "jsonOutputArgs a = Some js"
  shows "spawnFinalArgs objs (Some a) configs config =
           (fragBatchPrefix a config @ args config)
           @ (if set js \<inter> set (fragBatchPrefix a config @ args config) = {} then js else [])
           @ (fragResume a config @ fragReadOnly a config @ fragModel a config
                @ fragUserConfig objs a configs config)
         \<and> set (fragJsonOutput a config) \<inter> set (fragBatchPrefix a config @ args config) = {}
         \<and> fragJsonOutput a config =
             (if set js \<inter> set (fragBatchPrefix a config @ args config) = {} then js else [])"
  using fragJsonOutput_cases [OF assms, of config] fragJsonOutput_disjoint [of a config]
    spawnFinalArgs_fragments [of objs a configs config]
  by simp

theorem jsonOutputArgs_appended_unless_present_witness:
  "spawnFinalArgs exampleObjects
     (Some \<lparr>requiresPty = None, batchModePrefix = Some [''run''],
            jsonOutputArgs = Some [''--format'', ''json''],
            resumeArgs = None, readOnlyArgs = None, modelArgs = None,
            configOptions = (None :: ExampleValue AgentConfigOption list option)\<rparr>)
     Map.empty
     \<lparr>sessionId = ''s1-ai'', toolType = ''opencode'', cwd = ''/tmp'', command = ''opencode'',
      args = [''--verbose''], prompt = Some ''hello'', shell = None, images = None,
      agentSessionId = None, readOnlyMode = None, modelId = None\<rparr>
   = [''run'', ''--verbose'', ''--format'', ''json'']
   \<and> spawnFinalArgs exampleObjects
     (Some \<lparr>requiresPty = None, batchModePrefix = Some [''run''],
            jsonOutputArgs = Some [''--format'', ''json''],
            resumeArgs = None, readOnlyArgs = None, modelArgs = None,
            configOptions = (None :: ExampleValue AgentConfigOption list option)\<rparr>)
     Map.empty
     \<lparr>sessionId = ''s1-ai'', toolType = ''opencode'', cwd = ''/tmp'', command = ''opencode'',
      args = [''--format'', ''text''], prompt = Some ''hello'', shell = None, images = None,
      agentSessionId = None, readOnlyMode = None, modelId = None\<rparr>
   = [''run'', ''--format'', ''text'']"
proof -
  let ?a = "\<lparr>requiresPty = None, batchModePrefix = Some [''run''],
            jsonOutputArgs = Some [''--format'', ''json''],
            resumeArgs = None, readOnlyArgs = None, modelArgs = None,
            configOptions = (None :: ExampleValue AgentConfigOption list option)\<rparr>"
  have h: "jsonOutputArgs ?a = Some [''--format'', ''json'']" by simp
  have frags: "fragBatchPrefix ?a c = (if truthyStr (prompt c) then [''run''] else [])"
    "fragResume ?a c = []" "fragReadOnly ?a c = []" "fragModel ?a c = []"
    "fragUserConfig exampleObjects ?a Map.empty c = []" for c
    by (simp_all add: fragBatchPrefix_def fragResume_def fragReadOnly_def fragModel_def
        fragUserConfig_def split: option.splits bool.splits)
  show ?thesis
    using jsonOutputArgs_appended_unless_present [OF h, of exampleObjects Map.empty]
    by (simp add: frags truthyStr_def)
qed

text \<open>
  C6. When the request supplies the resume token \<open>abc123\<close> and the descriptor's
  resume-argument generator returns \<open>--resume abc123\<close> for it, the built argv holds
  exactly that fragment right after the prefix, the base args and the JSON-output flags,
  and before the read-only, model and user-config fragments.
\<close>

theorem resume_fragment_after_json_output:
  assumes "agentSessionId config = Some ''abc123''"
    and "resumeArgs a = Some resume"
    and "resume ''abc123'' = [''--resume'', ''abc123'']"
  shows "spawnFinalArgs objs (Some a) configs config =
           (fragBatchPrefix a config @ args config @ fragJsonOutput a config)
           @ [''--resume'', ''abc123'']
           @ (fragReadOnly a config @ fragModel a config @ fragUserConfig objs a configs config)"
proof -
  have "fragResume a config = [''--resume'', ''abc123'']"
    using assms by (simp add: fragResume_def)
  then show ?thesis
    by (simp add: spawnFinalArgs_fragments)
qed

theorem resume_fragment_after_json_output_witness:
  "spawnFinalArgs exampleObjects
     (Some \<lparr>requiresPty = None, batchModePrefix = None,
            jsonOutputArgs = Some [''--output-format'', ''stream-json''],
            resumeArgs = Some (\<lambda>t. [''--resume'', t]),
            readOnlyArgs = Some [''--permission-mode'', ''plan''], modelArgs = None,
            configOptions = (None :: ExampleValue AgentConfigOption list option)\<rparr>)
     Map.empty
     \<lparr>sessionId = ''s1-ai'', toolType = ''X'', cwd = ''/tmp'', command = ''x'',
      args = [''--print'', ''--verbose''], prompt = Some ''hello'', shell = None, images = None,
      agentSessionId = Some ''abc123'', readOnlyMode = Some True, modelId = None\<rparr>
   = [''--print'', ''--verbose'', ''--output-format'', ''stream-json'', ''--resume'', ''abc123'',
      ''--permission-mode'', ''plan'']"
proof -
  let ?a = "\<lparr>requiresPty = None, batchModePrefix = None,
            jsonOutputArgs = Some [''--output-format'', ''stream-json''],
            resumeArgs = Some (\<lambda>t. [''--resume'', t]),
            readOnlyArgs = Some [''--permission-mode'', ''plan''], modelArgs = None,
            configOptions = (None :: ExampleValue AgentConfigOption list option)\<rparr>"
  let ?c = "\<lparr>sessionId = ''s1-ai'', toolType = ''X'', cwd = ''/tmp'', command = ''x'',
      args = [''--print'', ''--verbose''], prompt = Some ''hello'', shell = None, images = None,
      agentSessionId = Some ''abc123'', readOnlyMode = Some True, modelId = None\<rparr>"
  have h1: "agentSessionId ?c = Some ''abc123''" by simp
  have h2: "resumeArgs ?a = Some (\<lambda>t. [''--resume'', t])" by simp
  have h3: "(\<lambda>t. [''--resume'', t]) ''abc123'' = [''--resume'', ''abc123'']" by simp
  show ?thesis
    unfolding resume_fragment_after_json_output [OF h1 h2 h3, of exampleObjects Map.empty]
    by (simp add: fragBatchPrefix_def fragJsonOutput_def fragReadOnly_def fragModel_def
        fragUserConfig_def)
qed

section \<open>The shell of a spawned process\<close>

text \<open>
  C10. For every spawn request that does not specify a shell (the property is absent or
  the empty string), the shell handed to the process manager is the persisted setting
  \<open>defaultShell\<close> (\<open>zsh\<close> when unset) if and only if the request's tool type is
  \<open>terminal\<close>; for every other tool type the shell stays unset.
\<close>

theorem default_shell_only_for_terminal:
  assumes "\<not> truthyStr (shell config)"
  shows "shell (fst (spawnOptions objs agent configs settings config)) =
           (if toolType config = ''terminal''
            then Some (case defaultShell settings of None \<Rightarrow> ''zsh'' | Some s \<Rightarrow> s)
            else None)
         \<and> (shell (fst (spawnOptions objs agent configs settings config)) =
               Some (case defaultShell settings of None \<Rightarrow> ''zsh'' | Some s \<Rightarrow> s))
             = (toolType config = ''terminal'')
         \<and> shellToUse settings config = shell (fst (spawnOptions objs agent configs settings config))"
  using assms by (simp add: spawnOptions_def shellToUse_def settingsGetDefaultShell_def)

theorem default_shell_only_for_terminal_witness:
  "shell (fst (spawnOptions exampleObjects (None :: ExampleValue AgentConfig option) Map.empty
        \<lparr>defaultShell = Some ''bash''\<rparr>
        \<lparr>sessionId = ''s1-terminal'', toolType = ''terminal'', cwd = ''/tmp'', command = ''zsh'',
         args = [], prompt = None, shell = None, images = None,
         agentSessionId = None, readOnlyMode = None, modelId = None\<rparr>)) = Some ''bash''
   \<and> shell (fst (spawnOptions exampleObjects (None :: ExampleValue AgentConfig option) Map.empty
        \<lparr>defaultShell = None\<rparr>
        \<lparr>sessionId = ''s1-terminal'', toolType = ''terminal'', cwd = ''/tmp'', command = ''zsh'',
         args = [], prompt = None, shell = None, images = None,
         agentSessionId = None, readOnlyMode = None, modelId = None\<rparr>)) = Some ''zsh''
   \<and> shell (fst (spawnOptions exampleObjects (None :: ExampleValue AgentConfig option) Map.empty
        \<lparr>defaultShell = Some ''bash''\<rparr>
        \<lparr>sessionId = ''s1-ai'', toolType = ''claude-code'', cwd = ''/tmp'', command = ''claude'',
         args = [], prompt = None, shell = None, images = None,
         agentSessionId = None, readOnlyMode = None, modelId = None\<rparr>)) = None"
proof -
  have h: "\<not> truthyStr (shell \<lparr>sessionId = sid, toolType = tt, cwd = ''/tmp'', command = cmd,
         args = [], prompt = None, shell = None, images = None,
         agentSessionId = None, readOnlyMode = None, modelId = None\<rparr>)" for sid tt cmd
    by (simp add: truthyStr_def)
  show ?thesis
    using default_shell_only_for_terminal
      [OF h, of exampleObjects "None :: ExampleValue AgentConfig option" Map.empty]
    by simp
qed

section \<open>Properties of the protocol adapter\<close>

subsection \<open>The status table\<close>

lemma mapToolStatus_known:
  "mapToolStatus (Some ''pending'') = ''pending''"
  "mapToolStatus (Some ''in_progress'') = ''running''"
  "mapToolStatus (Some ''completed'') = ''completed''"
  "mapToolStatus (Some ''failed'') = ''error''"
  "mapToolStatus None = ''pending''"
  by (simp_all add: mapToolStatus_def)

lemma mapToolStatus_other:
  "s \<notin> {''pending'', ''in_progress'', ''completed'', ''failed''} \<longrightarrow>
     mapToolStatus (Some s) = ''pending''"
proof
  assume "s \<notin> {''pending'', ''in_progress'', ''completed'', ''failed''}"
  then have "s \<noteq> ''pending''" "s \<noteq> ''in_progress''" "s \<noteq> ''completed''" "s \<noteq> ''failed''"
    by blast+
  then show "mapToolStatus (Some s) = ''pending''"
    unfolding mapToolStatus_def by (simp only: option.inject if_False)
qed

lemma if_member: "a \<in> S \<Longrightarrow> b \<in> S \<Longrightarrow> (if c then a else b) \<in> S"
  by simp

lemma mapToolStatus_range:
  "mapToolStatus st \<in> {''pending'', ''running'', ''completed'', ''error''}"
  unfolding mapToolStatus_def by (intro if_member; blast)

subsection \<open>Claims about the adapter\<close>

text \<open>
  C2 (as stated) does not hold for the mode-change kind: the adapter recognises
  \<open>current_mode_update\<close> and returns \<open>null\<close> for it, so this kind yields no event.
\<close>

theorem mode_change_counterexample:
  "acpUpdateToParseEvent ''session-1'' (Current_mode_update \<lparr>currentModeId = ''plan''\<rparr>) = None"
  by simp

text \<open>
  C2 (amended). For every protocol notification, each kind in the fixed set agent text
  chunk, agent reasoning chunk, tool-call start, tool-call update, plan and
  available-commands yields exactly one event, whose variant the kind alone determines:
  \<open>text\<close>, \<open>thinking\<close>, \<open>tool_use\<close> (for both tool-call kinds), \<open>plan\<close> and
  \<open>init\<close> (carrying the command names). The echo of the user's own message, the
  mode-change kind and every unrecognised kind yield no event.
\<close>

theorem update_kinds_to_events:
  "map_option eventType (acpUpdateToParseEvent sid (Agent_message_chunk c)) = Some ''text''
   \<and> map_option eventType (acpUpdateToParseEvent sid (Agent_thought_chunk c)) = Some ''thinking''
   \<and> map_option eventType (acpUpdateToParseEvent sid (Tool_call tc)) = Some ''tool_use''
   \<and> map_option eventType (acpUpdateToParseEvent sid (Tool_call_update tcu)) = Some ''tool_use''
   \<and> map_option eventType (acpUpdateToParseEvent sid (Plan_update p)) = Some ''plan''
   \<and> map_option eventType (acpUpdateToParseEvent sid (Available_commands_update u)) = Some ''init''
   \<and> acpUpdateToParseEvent sid (Available_commands_update u) =
       Some (InitEvent (map cmd_name (availableCommands u)) sid)
   \<and> acpUpdateToParseEvent sid (User_message_chunk c) = None
   \<and> acpUpdateToParseEvent sid (Current_mode_update m) = None
   \<and> acpUpdateToParseEvent sid OtherUpdate = None"
  by simp

theorem update_kinds_to_events_witness:
  "map_option eventType
     (acpUpdateToParseEvent ''session-1''
        (Agent_message_chunk
           \<lparr>chunk_content = TextBlock \<lparr>text_text = ''Hello'', text_annotations = None\<rparr>\<rparr>))
   = Some ''text''
   \<and> acpUpdateToParseEvent ''session-1''
        (Agent_message_chunk
           \<lparr>chunk_content = TextBlock \<lparr>text_text = ''Hello'', text_annotations = None\<rparr>\<rparr>)
     = Some (TextEvent ''Hello'' True ''session-1'')
   \<and> acpUpdateToParseEvent ''session-1''
        (User_message_chunk
           \<lparr>chunk_content = TextBlock \<lparr>text_text = ''Hello'', text_annotations = None\<rparr>\<rparr>)
     = None"
  using update_kinds_to_events
    [of "''session-1''"
        "\<lparr>chunk_content = TextBlock \<lparr>text_text = ''Hello'', text_annotations = None\<rparr>\<rparr>"]
  by simp

text \<open>
  C4. For every tool-call or tool-call-update notification the status is mapped through
  the fixed table pending to pending, in\_progress to running, completed to completed,
  failed to error; any other status string, and an absent status, maps to pending. The
  mapping is total: every input gives one of the four event statuses.
\<close>

theorem tool_status_table:
  "mapToolStatus (Some ''pending'') = ''pending''
   \<and> mapToolStatus (Some ''in_progress'') = ''running''
   \<and> mapToolStatus (Some ''completed'') = ''completed''
   \<and> mapToolStatus (Some ''failed'') = ''error''
   \<and> mapToolStatus None = ''pending''
   \<and> (s \<notin> {''pending'', ''in_progress'', ''completed'', ''failed''} \<longrightarrow>
        mapToolStatus (Some s) = ''pending'')
   \<and> mapToolStatus st \<in> {''pending'', ''running'', ''completed'', ''error''}
   \<and> acpUpdateToParseEvent sid (Tool_call tc) =
       Some (ToolUseEvent (tc_title tc) (tc_rawInput tc) None (tc_toolCallId tc)
               (mapToolStatus (tc_status tc)) sid)
   \<and> acpUpdateToParseEvent sid (Tool_call_update tcu) =
       Some (ToolUseEvent (if truthyStr (tcu_title tcu) then the (tcu_title tcu) else [])
               (tcu_rawInput tcu) (tcu_rawOutput tcu) (tcu_toolCallId tcu)
               (mapToolStatus (tcu_status tcu)) sid)"
proof -
  have tc: "acpUpdateToParseEvent sid (Tool_call tc) =
       Some (ToolUseEvent (tc_title tc) (tc_rawInput tc) None (tc_toolCallId tc)
               (mapToolStatus (tc_status tc)) sid)"
    by simp
  have tcu: "acpUpdateToParseEvent sid (Tool_call_update tcu) =
       Some (ToolUseEvent (if truthyStr (tcu_title tcu) then the (tcu_title tcu) else [])
               (tcu_rawInput tcu) (tcu_rawOutput tcu) (tcu_toolCallId tcu)
               (mapToolStatus (tcu_status tcu)) sid)"
    by simp
  show ?thesis
    apply (intro conjI)
    apply (rule mapToolStatus_known mapToolStatus_other mapToolStatus_range tc tcu)+
    done
qed

theorem tool_status_table_witness:
  "''cancelled'' \<notin> {''pending'', ''in_progress'', ''completed'', ''failed''}
   \<and> mapToolStatus (Some ''cancelled'') = ''pending''
   \<and> acpUpdateToParseEvent ''session-1''
        (Tool_call_update
           \<lparr>tcu_toolCallId = ''call-7'', tcu_title = Some ''Read file'', tcu_kind = Some ''read'',
            tcu_status = Some ''completed'', tcu_rawInput = None,
            tcu_rawOutput = Some (JStr ''ok''), tcu_content = None, tcu_locations = None\<rparr>)
     = Some (ToolUseEvent ''Read file'' None (Some (JStr ''ok'')) ''call-7'' ''completed''
               ''session-1'')
   \<and> acpUpdateToParseEvent ''session-1''
        (Tool_call_update
           \<lparr>tcu_toolCallId = ''call-7'', tcu_title = None, tcu_kind = None,
            tcu_status = Some ''cancelled'', tcu_rawInput = None,
            tcu_rawOutput = None, tcu_content = None, tcu_locations = None\<rparr>)
     = Some (ToolUseEvent [] None None ''call-7'' ''pending'' ''session-1'')"
proof -
  have h: "''cancelled'' \<notin> {''pending'', ''in_progress'', ''completed'', ''failed''}"
    by simp
  have imp: "''cancelled'' \<notin> {''pending'', ''in_progress'', ''completed'', ''failed''} \<longrightarrow>
      mapToolStatus (Some ''cancelled'') = ''pending''"
    by (rule tool_status_table [of "''cancelled''", THEN conjunct2, THEN conjunct2,
          THEN conjunct2, THEN conjunct2, THEN conjunct2, THEN conjunct1])
  have p: "mapToolStatus (Some ''cancelled'') = ''pending''"
    using imp h by (rule mp)
  have q: "mapToolStatus (Some ''completed'') = ''completed''"
    by (rule tool_status_table [THEN conjunct2, THEN conjunct2, THEN conjunct1])
  show ?thesis
    by (simp add: h p q truthyStr_def)
qed

text \<open>
  C8. A content block that is not plain text becomes a short placeholder: an image gives
  \<open>[image]\<close>, a resource link gives \<open>[resource: name]\<close> with the link's name, an
  embedded binary resource gives \<open>[binary resource]\<close>; the image data and the blob do
  not reach the result. A text block and an embedded text resource give their text
  unchanged.
\<close>

theorem extractText_placeholders:
  "extractText (TextBlock t) = text_text t
   \<and> extractText (ResourceBlock \<lparr>res_resource = TextResource tr, res_annotations = an\<rparr>)
       = tres_text tr
   \<and> extractText (ImageBlock i) = ''[image]''
   \<and> extractText (ResourceLinkBlock l) = ''[resource: '' @ link_name l @ '']''
   \<and> extractText (ResourceBlock \<lparr>res_resource = BlobResource br, res_annotations = an\<rparr>)
       = ''[binary resource]''
   \<and> extractText (ImageBlock (i\<lparr>image_data := d\<rparr>)) = extractText (ImageBlock i)
   \<and> extractText (ResourceBlock \<lparr>res_resource = BlobResource (br\<lparr>bres_blob := d\<rparr>),
                                  res_annotations = an\<rparr>)
       = extractText (ResourceBlock \<lparr>res_resource = BlobResource br, res_annotations = an\<rparr>)"
  by simp

theorem extractText_placeholders_witness:
  "extractText (ResourceLinkBlock
      \<lparr>link_uri = ''file:///tmp/a.txt'', link_name = ''a.txt'', link_mimeType = None,
       link_description = None, link_title = None, link_size = None,
       link_annotations = None\<rparr>) = ''[resource: a.txt]''
   \<and> extractText (ResourceBlock
      \<lparr>res_resource = BlobResource \<lparr>bres_uri = ''file:///tmp/a.bin'', bres_blob = ''AAEC'',
                                     bres_mimeType = None\<rparr>,
       res_annotations = None\<rparr>) = ''[binary resource]''
   \<and> extractText (ImageBlock
      \<lparr>image_data = ''iVBORw0KGgo='', image_mimeType = ''image/png'', image_uri = None,
       image_annotations = None\<rparr>) = ''[image]''"
  using extractText_placeholders
    [of _ _ _
        "\<lparr>image_data = ''iVBORw0KGgo='', image_mimeType = ''image/png'', image_uri = None,
          image_annotations = None\<rparr>"
        "\<lparr>link_uri = ''file:///tmp/a.txt'', link_name = ''a.txt'', link_mimeType = None,
          link_description = None, link_title = None, link_size = None,
          link_annotations = None\<rparr>"
        "\<lparr>bres_uri = ''file:///tmp/a.bin'', bres_blob = ''AAEC'', bres_mimeType = None\<rparr>"]
  by simp

section \<open>Properties of the stream-json reader\<close>

subsection \<open>Splitting and joining lines\<close>

lemma splitLines_no_newline: "CHR 0x0A \<notin> set l \<Longrightarrow> splitLines l = [l]"
  by (induction l) auto

lemma splitLines_append_newline:
  "CHR 0x0A \<notin> set l \<Longrightarrow> splitLines (l @ CHR 0x0A # rest) = l # splitLines rest"
  by (induction l) auto

lemma splitLines_joinLines:
  "ls \<noteq> [] \<Longrightarrow> \<forall>l \<in> set ls. CHR 0x0A \<notin> set l \<Longrightarrow> splitLines (joinLines ls) = ls"
  by (induction ls rule: joinLines.induct)
     (simp_all add: splitLines_no_newline splitLines_append_newline)

subsection \<open>Lines that do not parse\<close>

lemma tryLine_unparseable: "parse l = None \<Longrightarrow> tryLine parse l = Inl SyntaxError"
  by (simp add: tryLine_def)

lemma resultLoop_unparseable:
  "parse l = None \<Longrightarrow> resultLoop parse (l # rest) = resultLoop parse rest"
  by (simp add: tryLine_unparseable)

lemma resultLoop_filter:
  "resultLoop parse (filter (\<lambda>l. parse l \<noteq> None) ls) = resultLoop parse ls"
proof (induction ls)
  case Nil
  show ?case by simp
next
  case (Cons l ls)
  show ?case
  proof (cases "parse l")
    case None
    then show ?thesis using Cons.IH by (simp add: tryLine_unparseable)
  next
    case (Some msg)
    then show ?thesis using Cons.IH by (simp split: sum.splits option.splits)
  qed
qed

lemma extractResult_joinLines:
  assumes "\<forall>l \<in> set ls. CHR 0x0A \<notin> set l"
  shows "extractResultFromStreamJson parse (joinLines ls) = resultLoop parse ls"
proof (cases ls)
  case Nil
  then show ?thesis by (simp add: extractResultFromStreamJson_def isBlank_def)
next
  case (Cons l rest)
  then have "splitLines (joinLines ls) = ls"
    using assms splitLines_joinLines [of ls] by simp
  then show ?thesis by (simp add: extractResultFromStreamJson_def)
qed

subsection \<open>Each line read as a record of its own\<close>

lemma resultLoop_step:
  "resultLoop parse (l # rest) =
     (case lineResult parse l of Some r \<Rightarrow> Some r | None \<Rightarrow> resultLoop parse rest)"
proof (cases "isBlank l")
  case True
  then show ?thesis by (simp add: lineResult_def)
next
  case False
  show ?thesis
  proof (cases "parse l")
    case None
    then show ?thesis using False by (simp add: lineResult_def tryLine_def)
  next
    case (Some msg)
    then show ?thesis using False
      by (cases msg)
         (simp_all add: lineResult_def tryLine_def getProp_def split: option.splits)
  qed
qed

lemma resultLoop_first:
  "resultLoop parse ls =
     (case List.map_filter (lineResult parse) ls of [] \<Rightarrow> None | r # rs \<Rightarrow> Some r)"
proof (induction ls)
  case Nil
  show ?case by (simp add: List.map_filter_simps)
next
  case (Cons l ls)
  show ?case
    unfolding resultLoop_step Cons.IH
    by (simp add: List.map_filter_simps split: option.splits)
qed

lemma lineResult_unparseable: "parse l = None \<Longrightarrow> lineResult parse l = None"
  by (simp add: lineResult_def)

lemma resultLoop_after_unparseable:
  "\<forall>b \<in> set before. parse b = None \<Longrightarrow> lineResult parse good = Some r \<Longrightarrow>
   resultLoop parse (before @ good # after) = Some r"
proof (induction before)
  case Nil
  then show ?case unfolding append_Nil resultLoop_step by simp
next
  case (Cons b before)
  then have "lineResult parse b = None"
    by (simp add: lineResult_unparseable)
  then show ?case
    using Cons unfolding append_Cons resultLoop_step by simp
qed

text \<open>
  C7. The output is read line by line and each line is attempted as a record of its own:
  the result is that of the first line which, taken alone, is a result record, whatever
  the other lines are. A line that does not parse throws inside the inner \<open>try\<close>, is
  skipped without an error, and the loop goes on with the lines after it: a result record
  that follows lines which do not parse is returned, and taking the lines that do not
  parse out of an output leaves the result unchanged.
\<close>

theorem unparseable_lines_ignored:
  assumes "\<forall>l \<in> set ls. CHR 0x0A \<notin> set l"
  shows "extractResultFromStreamJson parse (joinLines ls) =
           (case List.map_filter (lineResult parse) ls of [] \<Rightarrow> None | r # rs \<Rightarrow> Some r)
         \<and> extractResultFromStreamJson parse (joinLines ls) =
           extractResultFromStreamJson parse (joinLines (filter (\<lambda>l. parse l \<noteq> None) ls))
         \<and> extractResultFromStreamJson parse (joinLines ls) = resultLoop parse ls
         \<and> (parse bad = None \<longrightarrow>
              tryLine parse bad = Inl SyntaxError
              \<and> resultLoop parse (bad # rest) = resultLoop parse rest)
         \<and> (ls = before @ good # after \<and> (\<forall>b \<in> set before. parse b = None)
              \<and> lineResult parse good = Some res \<longrightarrow>
              extractResultFromStreamJson parse (joinLines ls) = Some res)"
proof -
  have sub: "\<forall>l \<in> set (filter (\<lambda>l. parse l \<noteq> None) ls). CHR 0x0A \<notin> set l"
    using assms by simp
  have b: "extractResultFromStreamJson parse (joinLines ls) = resultLoop parse ls"
    using assms by (rule extractResult_joinLines)
  have "extractResultFromStreamJson parse (joinLines (filter (\<lambda>l. parse l \<noteq> None) ls)) =
      resultLoop parse (filter (\<lambda>l. parse l \<noteq> None) ls)"
    using sub by (rule extractResult_joinLines)
  also have "\<dots> = resultLoop parse ls"
    by (rule resultLoop_filter)
  also have "\<dots> = extractResultFromStreamJson parse (joinLines ls)"
    by (rule b [symmetric])
  finally have a: "extractResultFromStreamJson parse (joinLines ls) =
      extractResultFromStreamJson parse (joinLines (filter (\<lambda>l. parse l \<noteq> None) ls))"
    by (rule sym)
  have c: "parse bad = None \<longrightarrow>
      tryLine parse bad = Inl SyntaxError \<and> resultLoop parse (bad # rest) = resultLoop parse rest"
    by (simp add: tryLine_unparseable)
  have d: "extractResultFromStreamJson parse (joinLines ls) =
      (case List.map_filter (lineResult parse) ls of [] \<Rightarrow> None | r # rs \<Rightarrow> Some r)"
    unfolding b by (rule resultLoop_first)
  have e: "ls = before @ good # after \<and> (\<forall>b \<in> set before. parse b = None)
      \<and> lineResult parse good = Some res \<longrightarrow>
      extractResultFromStreamJson parse (joinLines ls) = Some res"
  proof
    assume h: "ls = before @ good # after \<and> (\<forall>b \<in> set before. parse b = None)
      \<and> lineResult parse good = Some res"
    then have "resultLoop parse (before @ good # after) = Some res"
      using resultLoop_after_unparseable [of before parse good res after] by blast
    then show "extractResultFromStreamJson parse (joinLines ls) = Some res"
      using h b by simp
  qed
  show ?thesis
    by (intro conjI) (rule d a b c e)+
qed

text \<open>
  The witness reads an output of four lines: a diagnostic line, a record of another type,
  a line cut short, and the result record. Only the second and the fourth parse; the
  parser is given by its value on these two lines.
\<close>

theorem unparseable_lines_ignored_witness:
  "list_all (\<lambda>l. CHR 0x0A \<notin> set l)
     [''Warning: retrying'', ''{\"type\":\"system\"}'', ''{\"type\":\"resu'',
      ''{\"type\":\"result\",\"result\":\"done\"}'']
   \<and> extractResultFromStreamJson
       (\<lambda>l. if l = ''{\"type\":\"system\"}'' then Some (JObj [(''type'', JStr ''system'')])
            else if l = ''{\"type\":\"result\",\"result\":\"done\"}''
              then Some (JObj [(''type'', JStr ''result''), (''result'', JStr ''done'')])
            else None)
       (joinLines [''Warning: retrying'', ''{\"type\":\"system\"}'', ''{\"type\":\"resu'',
                   ''{\"type\":\"result\",\"result\":\"done\"}''])
     = Some (JStr ''done'')
   \<and> extractResultFromStreamJson
       (\<lambda>l. if l = ''{\"type\":\"system\"}'' then Some (JObj [(''type'', JStr ''system'')])
            else if l = ''{\"type\":\"result\",\"result\":\"done\"}''
              then Some (JObj [(''type'', JStr ''result''), (''result'', JStr ''done'')])
            else None)
       (joinLines [''{\"type\":\"system\"}'', ''{\"type\":\"result\",\"result\":\"done\"}''])
     = Some (JStr ''done'')"
proof -
  let ?parse = "\<lambda>l. if l = ''{\"type\":\"system\"}'' then Some (JObj [(''type'', JStr ''system'')])
            else if l = ''{\"type\":\"result\",\"result\":\"done\"}''
              then Some (JObj [(''type'', JStr ''result''), (''result'', JStr ''done'')])
            else None"
  let ?ls = "[''Warning: retrying'', ''{\"type\":\"system\"}'', ''{\"type\":\"resu'',
             ''{\"type\":\"result\",\"result\":\"done\"}'']"
  have h: "\<forall>l \<in> set ?ls. CHR 0x0A \<notin> set l"
    by simp
  have f: "filter (\<lambda>l. ?parse l \<noteq> None) ?ls =
      [''{\"type\":\"system\"}'', ''{\"type\":\"result\",\"result\":\"done\"}'']"
    by simp
  have m: "List.map_filter (lineResult ?parse) ?ls = [JStr ''done'']"
    by (simp add: List.map_filter_simps lineResult_def isBlank_def isWhiteSpace_def)
  note t = unparseable_lines_ignored [OF h, of ?parse]
  have e1: "extractResultFromStreamJson ?parse (joinLines ?ls) = Some (JStr ''done'')"
    unfolding t [THEN conjunct1] m by simp
  have t1: "extractResultFromStreamJson ?parse (joinLines ?ls) =
      extractResultFromStreamJson ?parse (joinLines (filter (\<lambda>l. ?parse l \<noteq> None) ?ls))"
    by (rule t [THEN conjunct2, THEN conjunct1])
  have e2: "extractResultFromStreamJson ?parse
        (joinLines [''{\"type\":\"system\"}'', ''{\"type\":\"result\",\"result\":\"done\"}''])
      = Some (JStr ''done'')"
    using t1 [unfolded f, symmetric] e1 by (rule trans)
  have h': "list_all (\<lambda>l. CHR 0x0A \<notin> set l) ?ls"
    by simp
  show ?thesis
    by (intro conjI h' e1 e2)
qed

section \<open>Properties of \<open>kill\<close>\<close>

text \<open>
  C9. For every session id that is unknown to the registry, or whose processes have
  already exited, \<open>kill\<close> returns false, sends no signal and leaves the registry as it
  was, for this session and for all others. Killing a session twice is safe: \<open>kill\<close>
  never changes the registry itself, and once the exits of both roles were observed a
  second \<open>kill\<close> returns false and changes nothing.
\<close>

theorem kill_unknown_session:
  assumes "\<forall>role. registry (sid, role) = None
             \<or> (\<exists>h. registry (sid, role) = Some h \<and> handleState h = Exited)"
  shows "kill registry sid = (False, [], registry)
         \<and> kill (snd (snd (kill registry sid))) sid = (False, [], registry)
         \<and> snd (snd (kill registry' sid')) = registry'
         \<and> kill (observeExit (observeExit (snd (snd (kill registry' sid'))) (sid', AI))
                   (sid', Terminal)) sid'
             = (False, [], observeExit (observeExit registry' (sid', AI)) (sid', Terminal))"
proof -
  have "registry (sid, AI) = None
      \<or> (\<exists>h. registry (sid, AI) = Some h \<and> handleState h = Exited)"
    and "registry (sid, Terminal) = None
      \<or> (\<exists>h. registry (sid, Terminal) = Some h \<and> handleState h = Exited)"
    using assms by blast+
  then have "liveRoles registry sid = []"
    by (auto simp: liveRoles_def)
  then have a: "kill registry sid = (False, [], registry)"
    by (simp add: kill_def)
  have b: "snd (snd (kill registry' sid')) = registry'"
    by (simp add: kill_def Let_def)
  have "liveRoles (observeExit (observeExit registry' (sid', AI)) (sid', Terminal)) sid' = []"
    by (simp add: liveRoles_def observeExit_def)
  then have c: "kill (observeExit (observeExit registry' (sid', AI)) (sid', Terminal)) sid'
      = (False, [], observeExit (observeExit registry' (sid', AI)) (sid', Terminal))"
    by (simp add: kill_def)
  show ?thesis
    using a b c by simp
qed

theorem kill_unknown_session_witness:
  "kill [(''s1'', AI) \<mapsto> \<lparr>pid = 4242, launchMode = PipeBacked, handleState = Running,
                               exitCode = None\<rparr>,
         (''s2'', Terminal) \<mapsto> \<lparr>pid = 4243, launchMode = PtyBacked, handleState = Exited,
                                     exitCode = Some 0\<rparr>] ''s3''
   = (False, [],
      [(''s1'', AI) \<mapsto> \<lparr>pid = 4242, launchMode = PipeBacked, handleState = Running,
                            exitCode = None\<rparr>,
       (''s2'', Terminal) \<mapsto> \<lparr>pid = 4243, launchMode = PtyBacked, handleState = Exited,
                                  exitCode = Some 0\<rparr>])
   \<and> fst (kill [(''s1'', AI) \<mapsto> \<lparr>pid = 4242, launchMode = PipeBacked, handleState = Running,
                               exitCode = None\<rparr>,
         (''s2'', Terminal) \<mapsto> \<lparr>pid = 4243, launchMode = PtyBacked, handleState = Exited,
                                     exitCode = Some 0\<rparr>] ''s2'') = False
   \<and> fst (kill [(''s1'', AI) \<mapsto> \<lparr>pid = 4242, launchMode = PipeBacked, handleState = Running,
                               exitCode = None\<rparr>,
         (''s2'', Terminal) \<mapsto> \<lparr>pid = 4243, launchMode = PtyBacked, handleState = Exited,
                                     exitCode = Some 0\<rparr>] ''s1'') = True"
proof -
  let ?reg = "[(''s1'', AI) \<mapsto> \<lparr>pid = 4242, launchMode = PipeBacked, handleState = Running,
                               exitCode = None\<rparr>,
         (''s2'', Terminal) \<mapsto> \<lparr>pid = 4243, launchMode = PtyBacked, handleState = Exited,
                                     exitCode = Some 0\<rparr>]"
  have h3: "\<forall>role. ?reg (''s3'', role) = None
             \<or> (\<exists>h. ?reg (''s3'', role) = Some h \<and> handleState h = Exited)"
    by simp
  have h2: "\<forall>role. ?reg (''s2'', role) = None
             \<or> (\<exists>h. ?reg (''s2'', role) = Some h \<and> handleState h = Exited)"
    by simp
  have k3: "kill ?reg ''s3'' = (False, [], ?reg)"
    using kill_unknown_session [OF h3] by blast
  have k2: "kill ?reg ''s2'' = (False, [], ?reg)"
    using kill_unknown_session [OF h2] by blast
  have k1: "fst (kill ?reg ''s1'') = True"
    by (simp add: kill_def liveRoles_def)
  show ?thesis
    unfolding k3 k2 k1 by simp
qed

end
